theory Spec2Isabelle
  imports Main
begin

section \<open>The Ruby wrapping of the Registry class\<close>

text \<open>
  The file \<^verbatim>\<open>src/bindings/ruby/ext/registry.hh\<close> wraps the C++ class \<^verbatim>\<open>Registry\<close> for
  Ruby. Each wrapper calls one operation of the C++ library and turns what comes back
  into a Ruby value or a Ruby exception. The library itself (\<^verbatim>\<open>Registry\<close>,
  \<^verbatim>\<open>PluginManager\<close>, \<^verbatim>\<open>config_set\<close>, \<^verbatim>\<open>cxx2rb::type_wrap\<close>) is not part of these
  sources, so every library operation is a parameter of the wrapper that calls it.
\<close>

subsection \<open>C++ calls and Ruby results\<close>

text \<open>
  The three exception classes the wrappers name. \<^verbatim>\<open>BadName\<close> and \<^verbatim>\<open>Undefined\<close> carry
  the offending name, \<^verbatim>\<open>ImportError\<close> the text its \<^verbatim>\<open>what()\<close> returns. They are taken
  to be unrelated classes: a handler for one does not catch another.
\<close>

datatype exn = BadName string | Undefined string | ImportError string

text \<open>
  A call into the library works on the registry (of type \<open>'r\<close>) and either returns a
  value (\<open>Inr\<close>) or throws (\<open>Inl\<close>); in both cases it leaves a registry behind.
\<close>

type_synonym ('a, 'r) cxx = "(exn + 'a) \<times> 'r"

text \<open>
  Ruby values as far as the wrappers build them: \<^verbatim>\<open>Qnil\<close>, a string, or an object
  (the registry object \<^verbatim>\<open>self\<close>, a wrapped type) that stays opaque.
\<close>

datatype 'o VALUE = Qnil | RString string | RObject 'o

datatype rb_class = rb_eTypeError | rb_eArgError | rb_eRuntimeError

text \<open>
  How a wrapper ends: it returns a value, it raises a Ruby exception of a class with a
  message (\<^verbatim>\<open>rb_raise\<close>), or a C++ exception leaves it because no handler of the wrapper
  matches.
\<close>

datatype 'o outcome = Return "'o VALUE" | Raise rb_class string | Uncaught exn

text \<open>
  \<^verbatim>\<open>StringValuePtr\<close> hands the bytes of a Ruby string over as a C string: a
  \<^verbatim>\<open>std::string\<close> built from it and the \<^verbatim>\<open>%s\<close> of \<^verbatim>\<open>rb_raise\<close> both stop at the first
  NUL byte. The arguments of the wrappers are Ruby strings here; the conversion
  \<^verbatim>\<open>StringValuePtr\<close> attempts on any other object is not modelled.
\<close>

definition c_str :: "string \<Rightarrow> string" where
  "c_str s = takeWhile (\<lambda>c. c \<noteq> CHR 0x00) s"

subsection \<open>The wrappers\<close>

text \<open>
  \<^verbatim>\<open>registry_do_build\<close>: the pointer \<^verbatim>\<open>registry.build\<close> returns is checked for null; there is
  no \<^verbatim>\<open>try\<close> block around the call.
\<close>

definition registry_do_build ::
  "('r \<Rightarrow> string \<Rightarrow> ('t option, 'r) cxx) \<Rightarrow> ('t \<Rightarrow> 'o VALUE \<Rightarrow> 'o VALUE) \<Rightarrow>
   'o VALUE \<Rightarrow> 'r \<Rightarrow> string \<Rightarrow> 'o outcome \<times> 'r" where
  "registry_do_build Registry_build type_wrap self registry name =
     (case Registry_build registry (c_str name) of
        (Inl e, registry') \<Rightarrow> (Uncaught e, registry')
      | (Inr None, registry') \<Rightarrow>
          (Raise rb_eTypeError (''invalid type '' @ c_str name), registry')
      | (Inr (Some ty), registry') \<Rightarrow> (Return (type_wrap ty self), registry'))"

text \<open>
  \<^verbatim>\<open>registry_alias(self, name, aliased)\<close> calls \<^verbatim>\<open>registry.alias(aliased, name)\<close> inside a
  \<^verbatim>\<open>try\<close> block with a handler for \<^verbatim>\<open>BadName\<close> and one for \<^verbatim>\<open>Undefined\<close>; both raise
  \<^verbatim>\<open>rb_eArgError\<close>, the first naming \<^verbatim>\<open>name\<close>, the second \<^verbatim>\<open>aliased\<close>.
\<close>

definition registry_alias ::
  "('r \<Rightarrow> string \<Rightarrow> string \<Rightarrow> (unit, 'r) cxx) \<Rightarrow>
   'o VALUE \<Rightarrow> 'r \<Rightarrow> string \<Rightarrow> string \<Rightarrow> 'o outcome \<times> 'r" where
  "registry_alias Registry_alias self registry name aliased =
     (case Registry_alias registry (c_str aliased) (c_str name) of
        (Inr _, registry') \<Rightarrow> (Return self, registry')
      | (Inl (BadName _), registry') \<Rightarrow>
          (Raise rb_eArgError (''invalid type name '' @ c_str name), registry')
      | (Inl (Undefined _), registry') \<Rightarrow>
          (Raise rb_eArgError (''no such type '' @ c_str aliased), registry')
      | (Inl (ImportError what), registry') \<Rightarrow> (Uncaught (ImportError what), registry'))"

text \<open>
  \<^verbatim>\<open>registry_import\<close> first fills a \<^verbatim>\<open>config_set\<close> from the options. The caller has
  formatted them: \<^verbatim>\<open>nil\<close>, or an array of pairs of a key and either one string or an
  array of strings. An array value is added element by element with \<^verbatim>\<open>insert\<close>, a
  single value with \<^verbatim>\<open>set\<close>. The class \<^verbatim>\<open>config_set\<close> is a parameter: the empty
  configuration and its two operations.
\<close>

datatype opt_value = OptString string | OptArray "string list"

record 'c config_ops =
  config_new :: 'c
  config_set :: "string \<Rightarrow> string \<Rightarrow> 'c \<Rightarrow> 'c"
  config_insert :: "string \<Rightarrow> string \<Rightarrow> 'c \<Rightarrow> 'c"

fun add_option :: "'c config_ops \<Rightarrow> 'c \<Rightarrow> string \<times> opt_value \<Rightarrow> 'c" where
  "add_option ops config (k, OptArray vs) =
     foldl (\<lambda>c v. config_insert ops (c_str k) (c_str v) c) config vs"
| "add_option ops config (k, OptString v) = config_set ops (c_str k) (c_str v) config"

definition import_config :: "'c config_ops \<Rightarrow> (string \<times> opt_value) list option \<Rightarrow> 'c" where
  "import_config ops options =
     (case options of
        None \<Rightarrow> config_new ops
      | Some entries \<Rightarrow> foldl (add_option ops) (config_new ops) entries)"

text \<open>
  Then \<^verbatim>\<open>PluginManager::load(kind, file, config, registry)\<close> runs inside a \<^verbatim>\<open>try\<close> block
  whose only handler catches \<^verbatim>\<open>ImportError\<close> and raises \<^verbatim>\<open>rb_eRuntimeError\<close>.
\<close>

definition registry_import ::
  "(string \<Rightarrow> string \<Rightarrow> 'c \<Rightarrow> 'r \<Rightarrow> (unit, 'r) cxx) \<Rightarrow> 'c config_ops \<Rightarrow>
   'o VALUE \<Rightarrow> 'r \<Rightarrow> string \<Rightarrow> string \<Rightarrow> (string \<times> opt_value) list option \<Rightarrow>
   'o outcome \<times> 'r" where
  "registry_import PluginManager_load ops self registry file kind options =
     (case PluginManager_load (c_str kind) (c_str file) (import_config ops options) registry of
        (Inl (ImportError what), registry') \<Rightarrow>
          (Raise rb_eRuntimeError (''cannot import '' @ c_str file @ '': '' @ what), registry')
      | (Inl (BadName n), registry') \<Rightarrow> (Uncaught (BadName n), registry')
      | (Inl (Undefined n), registry') \<Rightarrow> (Uncaught (Undefined n), registry')
      | (Inr _, registry') \<Rightarrow> (Return Qnil, registry'))"

subsection \<open>What the Ruby caller can tell apart\<close>

text \<open>
  Ruby code that calls a wrapper can rescue a Ruby exception and read its class and its
  message. A C++ exception that leaves the wrapper is no Ruby exception: there is
  nothing to rescue.
\<close>

fun rb_exception :: "'o outcome \<Rightarrow> (rb_class \<times> string) option" where
  "rb_exception (Raise c msg) = Some (c, msg)"
| "rb_exception (Return v) = None"
| "rb_exception (Uncaught e) = None"

text \<open>
  Two failed calls are observably distinct when each reaches the caller as a Ruby
  exception and the two exceptions differ in class or in message.
\<close>

definition distinguishable :: "'o outcome \<Rightarrow> 'o outcome \<Rightarrow> bool" where
  "distinguishable a b \<longleftrightarrow>
     rb_exception a \<noteq> None \<and> rb_exception b \<noteq> None \<and> rb_exception a \<noteq> rb_exception b"

subsection \<open>A library to run the wrappers against\<close>

text \<open>
  The wrappers take the library as a parameter. These are the libraries the examples
  below run them against, over a registry that holds nothing: an \<^verbatim>\<open>alias\<close>
  that throws \<^verbatim>\<open>Undefined\<close> for the type \<^verbatim>\<open>NoSuchBase\<close> and \<^verbatim>\<open>BadName\<close> for every other
  call, a \<^verbatim>\<open>load\<close> that throws \<^verbatim>\<open>ImportError\<close>, a \<^verbatim>\<open>build\<close> that throws a given
  exception, a \<^verbatim>\<open>build\<close> that returns a null pointer, a \<^verbatim>\<open>config_set\<close> that keeps
  nothing and a \<^verbatim>\<open>type_wrap\<close> that returns the registry object.
\<close>

definition example_alias :: "unit \<Rightarrow> string \<Rightarrow> string \<Rightarrow> (unit, unit) cxx" where
  "example_alias registry existing new =
     (if existing = ''NoSuchBase'' then (Inl (Undefined existing), registry)
      else (Inl (BadName new), registry))"

definition example_load :: "string \<Rightarrow> string \<Rightarrow> unit \<Rightarrow> unit \<Rightarrow> (unit, unit) cxx" where
  "example_load kind file config registry = (Inl (ImportError ''no importer''), registry)"

definition throwing_build :: "exn \<Rightarrow> unit \<Rightarrow> string \<Rightarrow> (unit option, unit) cxx" where
  "throwing_build e registry name = (Inl e, registry)"

definition null_build :: "unit \<Rightarrow> string \<Rightarrow> (unit option, unit) cxx" where
  "null_build registry name = (Inr None, registry)"

definition example_config :: "unit config_ops" where
  "example_config = \<lparr>config_new = (), config_set = (\<lambda>k v c. c), config_insert = (\<lambda>k v c. c)\<rparr>"

definition example_wrap :: "unit \<Rightarrow> unit VALUE \<Rightarrow> unit VALUE" where
  "example_wrap ty self = self"

section \<open>The type builder\<close>

text \<open>
  The file \<^verbatim>\<open>src/typelib/typebuilder.hh\<close> declares the class \<^verbatim>\<open>TypeBuilder\<close>: its fields
  \<^verbatim>\<open>m_basename\<close>, \<^verbatim>\<open>m_type\<close> and \<^verbatim>\<open>m_registry\<close> and its member functions. The
  bodies of the member functions and the classes \<^verbatim>\<open>Type\<close> and \<^verbatim>\<open>Registry\<close> are not part of
  these sources.
\<close>

text \<open>
  Modelled from the spec: the categories of \<^verbatim>\<open>Type::Category\<close> (typemodel.hh is missing),
  as the closed set of categories the specification lists.
\<close>

datatype Category = Numeric | Pointer | Array | Compound | Enum

text \<open>
  Modelled from the spec: the class \<^verbatim>\<open>Type\<close> (typemodel.hh is missing), an immutable
  descriptor with a category, a canonical name, a byte size and, for a pointer, the
  canonical name of the type pointed to. Its identity is its canonical name.
\<close>

datatype Type =
  Type (getCategory: Category) (getName: string) (getSize: nat) (getIndirection: "string option")

text \<open>
  Modelled from the spec: the class \<^verbatim>\<open>Registry\<close> (its header and body are missing), as
  the one lookup namespace that canonical names and aliases share; \<open>get\<close> is the pure
  lookup, \<open>add\<close> registers a type under its canonical name.
\<close>

type_synonym Registry = "string \<rightharpoonup> Type"

definition get :: "Registry \<Rightarrow> string \<Rightarrow> Type option" where
  "get registry name = registry name"

definition add :: "Registry \<Rightarrow> Type \<Rightarrow> Registry" where
  "add registry ty = registry(getName ty \<mapsto> ty)"

text \<open>The fields of \<^verbatim>\<open>TypeBuilder\<close>, as the header declares them.\<close>

record TypeBuilder =
  m_basename :: string
  m_type :: Type
  m_registry :: Registry

definition getType :: "TypeBuilder \<Rightarrow> Type" where
  "getType tb = m_type tb"

text \<open>
  Modelled from the spec: one level of pointer (typebuilder.cc is missing). The canonical
  name of the pointer to a type is that type's canonical name followed by \<^verbatim>\<open>*\<close>. The
  name is looked up first; only when the lookup misses is a new pointer type made, of the
  platform's pointer size \<open>psize\<close>, and registered under that name.
\<close>

definition pointer_to :: "nat \<Rightarrow> Type \<times> Registry \<Rightarrow> Type \<times> Registry" where
  "pointer_to psize = (\<lambda>(ty, registry).
     let name = getName ty @ ''*'' in
     case get registry name of
       Some known \<Rightarrow> (known, registry)
     | None \<Rightarrow>
         let made = Type Pointer name psize (Some (getName ty))
         in (made, add registry made))"

text \<open>
  Modelled from the spec: a pointer modifier of size \<open>k\<close> applied to the current type
  wraps it \<open>k\<close> times, one level after the other.
\<close>

fun pointer_levels :: "nat \<Rightarrow> nat \<Rightarrow> Type \<times> Registry \<Rightarrow> Type \<times> Registry" where
  "pointer_levels psize 0 current = current"
| "pointer_levels psize (Suc k) current = pointer_levels psize k (pointer_to psize current)"

text \<open>
  Modelled from the spec: the body of \<^verbatim>\<open>TypeBuilder::addPointer(int level)\<close>
  (typebuilder.cc is missing). It applies a pointer modifier of size \<open>level\<close> to the
  current type and keeps the result as the current type; the registry it works on
  is the builder's.
\<close>

definition addPointer :: "nat \<Rightarrow> int \<Rightarrow> TypeBuilder \<Rightarrow> TypeBuilder" where
  "addPointer psize level tb =
     (case pointer_levels psize (nat level) (m_type tb, m_registry tb) of
        (ty, registry) \<Rightarrow> tb\<lparr>m_type := ty, m_registry := registry\<rparr>)"

section \<open>Error reporting through the Ruby wrappers\<close>

text \<open>
  Claim C6, as amended. When \<^verbatim>\<open>Registry::alias\<close> throws \<^verbatim>\<open>BadName\<close>, \<^verbatim>\<open>registry_alias\<close>
  raises \<^verbatim>\<open>ArgumentError\<close> with the message "invalid type name" and the new name; when
  it throws \<^verbatim>\<open>Undefined\<close>, the wrapper raises \<^verbatim>\<open>ArgumentError\<close> with the message "no
  such type" and the aliased name. When \<^verbatim>\<open>PluginManager::load\<close> throws \<^verbatim>\<open>ImportError\<close>,
  \<^verbatim>\<open>registry_import\<close> raises \<^verbatim>\<open>RuntimeError\<close> with "cannot import", the file and the
  text of the error. These three failures are pairwise distinct to the Ruby caller.
  \<^verbatim>\<open>registry_do_build\<close> reports a null pointer from \<^verbatim>\<open>Registry::build\<close> as \<^verbatim>\<open>TypeError\<close> with
  "invalid type" and the name, whatever the cause, and it catches no C++ exception: one
  thrown by \<^verbatim>\<open>Registry::build\<close> leaves the wrapper and is no Ruby exception.
\<close>

theorem ruby_wrapper_error_signals:
  assumes bad: "Registry_alias rb (c_str aliased_b) (c_str name_b) = (Inl (BadName x), rb')"
    and undef: "Registry_alias ru (c_str aliased_u) (c_str name_u) = (Inl (Undefined y), ru')"
    and imp: "PluginManager_load (c_str kind) (c_str path) (import_config ops options) ri
                = (Inl (ImportError what), ri')"
    and null: "build_n rn (c_str name_n) = (Inr None, rn')"
    and thrown: "build_t rt (c_str name_t) = (Inl e, rt')"
  shows "fst (registry_alias Registry_alias self rb name_b aliased_b)
           = Raise rb_eArgError (''invalid type name '' @ c_str name_b)
       \<and> fst (registry_alias Registry_alias self ru name_u aliased_u)
           = Raise rb_eArgError (''no such type '' @ c_str aliased_u)
       \<and> fst (registry_import PluginManager_load ops self ri path kind options)
           = Raise rb_eRuntimeError (''cannot import '' @ c_str path @ '': '' @ what)
       \<and> distinguishable (fst (registry_alias Registry_alias self rb name_b aliased_b))
                           (fst (registry_alias Registry_alias self ru name_u aliased_u))
       \<and> distinguishable (fst (registry_alias Registry_alias self rb name_b aliased_b))
                           (fst (registry_import PluginManager_load ops self ri path kind options))
       \<and> distinguishable (fst (registry_alias Registry_alias self ru name_u aliased_u))
                           (fst (registry_import PluginManager_load ops self ri path kind options))
       \<and> fst (registry_do_build build_n type_wrap_n self rn name_n)
           = Raise rb_eTypeError (''invalid type '' @ c_str name_n)
       \<and> fst (registry_do_build build_t type_wrap_t self rt name_t) = Uncaught e
       \<and> rb_exception (fst (registry_do_build build_t type_wrap_t self rt name_t)) = None"
proof -
  have a1: "fst (registry_alias Registry_alias self rb name_b aliased_b)
           = Raise rb_eArgError (''invalid type name '' @ c_str name_b)"
    using bad by (simp add: registry_alias_def)
  have a2: "fst (registry_alias Registry_alias self ru name_u aliased_u)
           = Raise rb_eArgError (''no such type '' @ c_str aliased_u)"
    using undef by (simp add: registry_alias_def)
  have i: "fst (registry_import PluginManager_load ops self ri path kind options)
           = Raise rb_eRuntimeError (''cannot import '' @ c_str path @ '': '' @ what)"
    using imp by (simp add: registry_import_def)
  have b4: "fst (registry_do_build build_n type_wrap_n self rn name_n)
           = Raise rb_eTypeError (''invalid type '' @ c_str name_n)"
    using null by (simp add: registry_do_build_def)
  have b5: "fst (registry_do_build build_t type_wrap_t self rt name_t) = Uncaught e"
    using thrown by (simp add: registry_do_build_def)
  show ?thesis
    unfolding a1 a2 i b4 b5 by (simp add: distinguishable_def)
qed

text \<open>
  The hypotheses hold for the example library: \<^verbatim>\<open>alias("123Invalid", "Foo")\<close> fails with
  \<^verbatim>\<open>BadName\<close>, \<^verbatim>\<open>alias("X", "NoSuchBase")\<close> with \<^verbatim>\<open>Undefined\<close>, the import of \<^verbatim>\<open>foo.h\<close>
  with \<^verbatim>\<open>ImportError\<close>, \<^verbatim>\<open>build("NoSuchBase*")\<close> returns a null pointer and
  \<^verbatim>\<open>build("Foo[")\<close> throws \<^verbatim>\<open>BadName\<close>.
\<close>

theorem ruby_wrapper_error_signals_witness:
  "fst (registry_alias example_alias (Qnil :: unit VALUE) () ''123Invalid'' ''Foo'')
     = Raise rb_eArgError ''invalid type name 123Invalid''
   \<and> fst (registry_alias example_alias (Qnil :: unit VALUE) () ''X'' ''NoSuchBase'')
     = Raise rb_eArgError ''no such type NoSuchBase''
   \<and> fst (registry_import example_load example_config (Qnil :: unit VALUE) () ''foo.h'' ''c'' None)
     = Raise rb_eRuntimeError ''cannot import foo.h: no importer''
   \<and> distinguishable
        (fst (registry_alias example_alias (Qnil :: unit VALUE) () ''123Invalid'' ''Foo''))
        (fst (registry_alias example_alias (Qnil :: unit VALUE) () ''X'' ''NoSuchBase''))
   \<and> distinguishable
        (fst (registry_alias example_alias (Qnil :: unit VALUE) () ''123Invalid'' ''Foo''))
        (fst (registry_import example_load example_config (Qnil :: unit VALUE) () ''foo.h'' ''c'' None))
   \<and> distinguishable
        (fst (registry_alias example_alias (Qnil :: unit VALUE) () ''X'' ''NoSuchBase''))
        (fst (registry_import example_load example_config (Qnil :: unit VALUE) () ''foo.h'' ''c'' None))
   \<and> fst (registry_do_build null_build example_wrap Qnil () ''NoSuchBase*'')
     = Raise rb_eTypeError ''invalid type NoSuchBase*''
   \<and> fst (registry_do_build (throwing_build (BadName ''Foo['')) example_wrap Qnil () ''Foo['')
     = Uncaught (BadName ''Foo['')
   \<and> rb_exception
        (fst (registry_do_build (throwing_build (BadName ''Foo['')) example_wrap Qnil () ''Foo['')) = None"
proof -
  have bad: "example_alias () (c_str ''Foo'') (c_str ''123Invalid'')
               = (Inl (BadName ''123Invalid''), ())"
    by (simp add: example_alias_def c_str_def)
  have undef: "example_alias () (c_str ''NoSuchBase'') (c_str ''X'')
               = (Inl (Undefined ''NoSuchBase''), ())"
    by (simp add: example_alias_def c_str_def)
  have imp: "example_load (c_str ''c'') (c_str ''foo.h'') (import_config example_config None) ()
               = (Inl (ImportError ''no importer''), ())"
    by (simp add: example_load_def)
  have null: "null_build () (c_str ''NoSuchBase*'') = (Inr None, ())"
    by (simp add: null_build_def)
  have thrown: "throwing_build (BadName ''Foo['') () (c_str ''Foo['') = (Inl (BadName ''Foo[''), ())"
    by (simp add: throwing_build_def)
  show ?thesis
    using ruby_wrapper_error_signals
      [where Registry_alias = example_alias
         and rb = "()" and aliased_b = "''Foo''" and name_b = "''123Invalid''"
         and ru = "()" and aliased_u = "''NoSuchBase''" and name_u = "''X''"
         and PluginManager_load = example_load and ops = example_config
         and kind = "''c''" and path = "''foo.h''" and options = None and ri = "()"
         and build_n = null_build and rn = "()" and name_n = "''NoSuchBase*''"
         and build_t = "throwing_build (BadName ''Foo['')" and rt = "()"
         and name_t = "''Foo[''"
         and self = "Qnil :: unit VALUE" and type_wrap_n = example_wrap
         and type_wrap_t = example_wrap,
       OF bad undef imp null thrown]
    by (simp add: c_str_def distinguishable_def)
qed

text \<open>
  Claim C6 as it is stated fails for \<^verbatim>\<open>build\<close>. Take the call \<^verbatim>\<open>build("NoSuchBase[")\<close>
  and let \<^verbatim>\<open>Registry::build\<close> fail once with \<^verbatim>\<open>BadName\<close> and once with \<^verbatim>\<open>Undefined\<close>:
  either exception leaves \<^verbatim>\<open>registry_do_build\<close> uncaught, so the Ruby caller gets no
  exception to rescue in either case and cannot tell the two apart. The one Ruby
  exception the wrapper does raise, for a null pointer, is the same \<^verbatim>\<open>TypeError\<close> for
  every cause.
\<close>

theorem registry_do_build_kinds_counterexample:
  "\<not> distinguishable
       (fst (registry_do_build (throwing_build (BadName ''NoSuchBase['')) example_wrap
              Qnil () ''NoSuchBase[''))
       (fst (registry_do_build (throwing_build (Undefined ''NoSuchBase'')) example_wrap
              Qnil () ''NoSuchBase[''))
   \<and> fst (registry_do_build (throwing_build (BadName ''NoSuchBase['')) example_wrap
              Qnil () ''NoSuchBase['') = Uncaught (BadName ''NoSuchBase['')
   \<and> fst (registry_do_build (throwing_build (Undefined ''NoSuchBase'')) example_wrap
              Qnil () ''NoSuchBase['') = Uncaught (Undefined ''NoSuchBase'')
   \<and> fst (registry_do_build null_build example_wrap Qnil () ''NoSuchBase['')
        = Raise rb_eTypeError ''invalid type NoSuchBase[''"
  by (simp add: registry_do_build_def throwing_build_def null_build_def c_str_def
        distinguishable_def)

section \<open>A pointer of level zero\<close>

text \<open>
  Claim C8. For every state of a \<^verbatim>\<open>TypeBuilder\<close>, \<^verbatim>\<open>addPointer(0)\<close> leaves the current
  type as it is and registers nothing: the registry is the same afterwards, and so is
  the whole builder.
\<close>

theorem addPointer_zero_noop:
  "getType (addPointer psize 0 tb) = getType tb
   \<and> m_registry (addPointer psize 0 tb) = m_registry tb
   \<and> addPointer psize 0 tb = tb"
  by (simp add: addPointer_def getType_def)

end
